theory Spec2Isabelle
  imports Complex_Main
begin

section \<open>The relational store\<close>

text \<open>
  The routes talk to PostgreSQL through \<^verbatim>\<open>query(text, params)\<close>. The tables of
  \<^verbatim>\<open>initDatabase\<close> (src/config/database.js) are modelled as lists of rows, one record per
  table, with the columns the route handlers read or write. A nullable column is an
  \<open>option\<close>. Timestamps are natural numbers (a clock reading); \<^verbatim>\<open>NOW()\<close> is the
  parameter \<open>now\<close> of a handler. JavaScript numbers are modelled as real numbers, so the
  rounding of IEEE doubles is not part of the model.
\<close>

datatype role = Patient | Driver | Admin

datatype ride_status = Pending | Accepted | InProgress | Completed | Canceled

datatype payment_status = PaymentPending | PaymentCompleted | PaymentFailed | PaymentRefunded

text \<open>The text stored in \<^verbatim>\<open>rides.status\<close> (the CHECK constraint of the table).\<close>

fun status_text :: "ride_status \<Rightarrow> string" where
  "status_text Pending = ''pending''"
| "status_text Accepted = ''accepted''"
| "status_text InProgress = ''in-progress''"
| "status_text Completed = ''completed''"
| "status_text Canceled = ''canceled''"

record user =
  u_id :: string
  u_name :: string
  u_email :: string
  u_phone :: "string option"
  u_role :: role
  u_created_at :: nat

record driver =
  d_id :: nat
  d_user_id :: string
  d_license_number :: string
  d_vehicle_type :: string
  d_availability :: bool
  d_rating :: real

record vehicle =
  v_id :: nat
  v_driver_id :: "nat option"
  v_license_plate :: string
  v_capacity :: nat

record ride =
  r_id :: nat
  r_user_id :: string
  r_driver_id :: "nat option"
  r_vehicle_id :: "nat option"
  r_start_location :: string
  r_end_location :: string
  r_start_latitude :: "real option"
  r_start_longitude :: "real option"
  r_end_latitude :: "real option"
  r_end_longitude :: "real option"
  r_ride_date :: nat
  r_status :: ride_status
  r_fare :: "real option"
  r_distance :: "real option"
  r_duration_minutes :: "real option"
  r_special_requirements :: "string option"
  r_emergency_contact :: "string option"
  r_created_at :: nat
  r_updated_at :: nat

record payment =
  p_id :: nat
  p_ride_id :: nat
  p_user_id :: string
  p_amount :: real
  p_method :: string
  p_status :: payment_status
  p_stripe_payment_intent_id :: string
  p_payment_date :: nat

record tracking =
  t_id :: nat
  t_ride_id :: nat
  t_latitude :: real
  t_longitude :: real
  t_timestamp :: nat
  t_speed :: "real option"
  t_heading :: "real option"

record store =
  users :: "user list"
  drivers :: "driver list"
  vehicles :: "vehicle list"
  rides :: "ride list"
  payments :: "payment list"
  ride_tracking :: "tracking list"

text \<open>
  \<^verbatim>\<open>AppError(message, statusCode)\<close> of the error middleware; the 401/403 answers of
  \<^verbatim>\<open>requireRole\<close> are modelled as the same record.
\<close>

record app_error =
  message :: string
  statusCode :: nat

definition AppError :: "string \<Rightarrow> nat \<Rightarrow> app_error" where
  "AppError m c = \<lparr>message = m, statusCode = c\<rparr>"

text \<open>\<^verbatim>\<open>req.user\<close>, set by \<^verbatim>\<open>authenticateToken\<close> from the token's payload.\<close>

record req_user =
  user_id :: string
  user_role :: role

text \<open>
  \<^verbatim>\<open>ORDER BY key DESC\<close>: the rows sorted by the key, largest first. \<^verbatim>\<open>LIMIT n OFFSET k\<close>
  is \<open>take n (drop k rows)\<close>.
\<close>

definition order_by_desc :: "('a \<Rightarrow> 'k::linorder) \<Rightarrow> 'a list \<Rightarrow> 'a list" where
  "order_by_desc key rows = rev (sort_key key rows)"

text \<open>
  A statement may only name columns its table has; PostgreSQL refuses it otherwise, before
  any row is touched.
\<close>

definition known_columns :: "string list \<Rightarrow> string list \<Rightarrow> bool" where
  "known_columns table_columns cols = list_all (\<lambda>c. c \<in> set table_columns) cols"

text \<open>\<^verbatim>\<open>SELECT id FROM drivers WHERE user_id = $1\<close>\<close>

definition select_driver_ids :: "store \<Rightarrow> string \<Rightarrow> nat list" where
  "select_driver_ids db uid = map d_id (filter (\<lambda>d. d_user_id d = uid) (drivers db))"

section \<open>GET /rides and GET /rides/:id\<close>

text \<open>
  The handlers build the WHERE clause by appending conjuncts. The model keeps the list of
  appended conjuncts as a list of predicates on a ride row; the LEFT JOINs of the query
  only add display columns of the patient, the driver and the vehicle and are left out of
  the returned rows. A query parameter \<^verbatim>\<open>status\<close> is a string; \<^verbatim>\<open>if (status)\<close> holds for
  a present, non-empty string.
\<close>

definition where_all :: "('a \<Rightarrow> bool) list \<Rightarrow> 'a \<Rightarrow> bool" where
  "where_all conds row = list_all (\<lambda>c. c row) conds"

definition role_filter :: "store \<Rightarrow> req_user \<Rightarrow> (ride \<Rightarrow> bool) list" where
  "role_filter db u =
     (if user_role u = Patient then [\<lambda>r. r_user_id r = user_id u]
      else if user_role u = Driver then
        (case select_driver_ids db (user_id u) of
           [] \<Rightarrow> []
         | did # _ \<Rightarrow> [\<lambda>r. r_driver_id r = Some did])
      else [])"

definition status_filter :: "string option \<Rightarrow> (ride \<Rightarrow> bool) list" where
  "status_filter status =
     (case status of
        None \<Rightarrow> []
      | Some s \<Rightarrow> (if s = [] then [] else [\<lambda>r. status_text (r_status r) = s]))"

record rides_page =
  page_rides :: "ride list"
  page_limit :: nat
  page_offset :: nat
  page_total :: nat

definition listRides :: "store \<Rightarrow> req_user \<Rightarrow> string option \<Rightarrow> nat \<Rightarrow> nat \<Rightarrow> rides_page" where
  "listRides db u status n_limit n_offset =
     (let conds = role_filter db u @ status_filter status;
          rows = take n_limit (drop n_offset (order_by_desc r_created_at (filter (where_all conds) (rides db))))
      in \<lparr>page_rides = rows, page_limit = n_limit, page_offset = n_offset, page_total = length rows\<rparr>)"

definition getRide :: "store \<Rightarrow> req_user \<Rightarrow> nat \<Rightarrow> app_error + ride" where
  "getRide db u rideId =
     (let conds = (\<lambda>r. r_id r = rideId) # role_filter db u
      in case filter (where_all conds) (rides db) of
           [] \<Rightarrow> Inl (AppError ''Ride not found'' 404)
         | row # _ \<Rightarrow> Inr row)"

section \<open>POST /rides\<close>

text \<open>
  \<^verbatim>\<open>requireRole(allowedRoles)\<close> of the auth middleware answers 403 unless the caller's role
  is in the list; \<open>None\<close> stands for \<^verbatim>\<open>next()\<close>.
\<close>

definition requireRole :: "role list \<Rightarrow> req_user \<Rightarrow> app_error option" where
  "requireRole allowedRoles u =
     (if user_role u \<in> set allowedRoles then None else Some (AppError ''Access denied'' 403))"

record create_body =
  startLocation :: "string option"
  endLocation :: "string option"
  startLatitude :: "real option"
  startLongitude :: "real option"
  endLatitude :: "real option"
  endLongitude :: "real option"
  rideDate :: "nat option"
  specialRequirements :: "string option"
  emergencyContact :: "string option"
  vehicleType :: "string option"

text \<open>
  The constraints of \<^verbatim>\<open>createRideSchema\<close>, key by key in the order of the schema. Joi's
  \<^verbatim>\<open>string()\<close> refuses the empty string. The result is the first offending key; the text of
  Joi's message is not modelled, the key stands for it.
\<close>

definition required_string :: "string option \<Rightarrow> bool" where
  "required_string x = (case x of None \<Rightarrow> False | Some s \<Rightarrow> s \<noteq> [])"

definition optional_string :: "string option \<Rightarrow> bool" where
  "optional_string x = (case x of None \<Rightarrow> True | Some s \<Rightarrow> s \<noteq> [])"

definition optional_number :: "real \<Rightarrow> real \<Rightarrow> real option \<Rightarrow> bool" where
  "optional_number lo hi x = (case x of None \<Rightarrow> True | Some v \<Rightarrow> lo \<le> v \<and> v \<le> hi)"

definition vehicle_types :: "string list" where
  "vehicle_types = [''car'', ''van'', ''wheelchair-accessible'', ''stretcher-enabled'']"

definition createRideSchema :: "nat \<Rightarrow> create_body \<Rightarrow> string option" where
  "createRideSchema now b =
     (if \<not> required_string (startLocation b) then Some ''startLocation''
      else if \<not> required_string (endLocation b) then Some ''endLocation''
      else if \<not> optional_number (-90) 90 (startLatitude b) then Some ''startLatitude''
      else if \<not> optional_number (-180) 180 (startLongitude b) then Some ''startLongitude''
      else if \<not> optional_number (-90) 90 (endLatitude b) then Some ''endLatitude''
      else if \<not> optional_number (-180) 180 (endLongitude b) then Some ''endLongitude''
      else if (case rideDate b of None \<Rightarrow> True | Some d \<Rightarrow> d < now) then Some ''rideDate''
      else if (case specialRequirements b of None \<Rightarrow> False | Some s \<Rightarrow> s = [] \<or> 500 < length s)
        then Some ''specialRequirements''
      else if \<not> optional_string (emergencyContact b) then Some ''emergencyContact''
      else if (case vehicleType b of None \<Rightarrow> False | Some s \<Rightarrow> s \<notin> set vehicle_types)
        then Some ''vehicleType''
      else None)"

text \<open>
  \<^verbatim>\<open>Math.atan2(y, x)\<close> on real numbers, and \<^verbatim>\<open>calculateDistance\<close> as written in the route
  file (the haversine formula with radius 3959).
\<close>

definition atan2 :: "real \<Rightarrow> real \<Rightarrow> real" where
  "atan2 y x =
     (if 0 < x then arctan (y / x)
      else if x < 0 then (if 0 \<le> y then arctan (y / x) + pi else arctan (y / x) - pi)
      else if 0 < y then pi / 2
      else if y < 0 then - (pi / 2)
      else 0)"

definition calculateDistance :: "real \<Rightarrow> real \<Rightarrow> real \<Rightarrow> real \<Rightarrow> real" where
  "calculateDistance lat1 lon1 lat2 lon2 =
     (let R = 3959;
          dLat = (lat2 - lat1) * pi / 180;
          dLon = (lon2 - lon1) * pi / 180;
          a = sin (dLat / 2) * sin (dLat / 2) +
              cos (lat1 * pi / 180) * cos (lat2 * pi / 180) *
              sin (dLon / 2) * sin (dLon / 2);
          c = 2 * atan2 (sqrt a) (sqrt (1 - a))
      in R * c)"

text \<open>
  The truth value JavaScript gives an optional number in a condition: \<^verbatim>\<open>undefined\<close> and
  \<^verbatim>\<open>0\<close> are false (the schema admits no NaN).
\<close>

definition truthy_number :: "real option \<Rightarrow> bool" where
  "truthy_number x = (case x of None \<Rightarrow> False | Some v \<Rightarrow> v \<noteq> 0)"

definition truthy_string :: "string option \<Rightarrow> bool" where
  "truthy_string x = (case x of None \<Rightarrow> False | Some s \<Rightarrow> s \<noteq> [])"

definition estimatedFare :: "create_body \<Rightarrow> real" where
  "estimatedFare b =
     (if truthy_number (startLatitude b) \<and> truthy_number (startLongitude b) \<and>
         truthy_number (endLatitude b) \<and> truthy_number (endLongitude b)
      then 15.0 + calculateDistance (the (startLatitude b)) (the (startLongitude b))
                    (the (endLatitude b)) (the (endLongitude b)) * 2.5
      else 15.0)"

text \<open>The next value of a SERIAL column: one more than every id in the table.\<close>

definition next_id :: "nat list \<Rightarrow> nat" where
  "next_id ids = Suc (fold max ids 0)"

text \<open>
  The advisory list of drivers: the inner join with \<^verbatim>\<open>users\<close> keeps the drivers whose
  user row exists.
\<close>

definition available_drivers :: "store \<Rightarrow> string \<Rightarrow> driver list" where
  "available_drivers db vt =
     take 5 (order_by_desc d_rating
       (filter (\<lambda>d. list_ex (\<lambda>du. u_id du = d_user_id d) (users db) \<and>
                     d_availability d \<and> d_vehicle_type d = vt) (drivers db)))"

record created_ride =
  created :: ride
  availableDrivers :: "driver list option"

definition createRide ::
  "store \<Rightarrow> nat \<Rightarrow> req_user \<Rightarrow> create_body \<Rightarrow> store \<times> (app_error + created_ride)" where
  "createRide db now u b =
     (case requireRole [Patient, Admin] u of
        Some e \<Rightarrow> (db, Inl e)
      | None \<Rightarrow>
         (case createRideSchema now b of
            Some k \<Rightarrow> (db, Inl (AppError k 400))
          | None \<Rightarrow>
             (let row = \<lparr>r_id = next_id (map r_id (rides db)),
                         r_user_id = user_id u,
                         r_driver_id = None,
                         r_vehicle_id = None,
                         r_start_location = the (startLocation b),
                         r_end_location = the (endLocation b),
                         r_start_latitude = startLatitude b,
                         r_start_longitude = startLongitude b,
                         r_end_latitude = endLatitude b,
                         r_end_longitude = endLongitude b,
                         r_ride_date = the (rideDate b),
                         r_status = Pending,
                         r_fare = Some (estimatedFare b),
                         r_distance = None,
                         r_duration_minutes = None,
                         r_special_requirements = specialRequirements b,
                         r_emergency_contact = emergencyContact b,
                         r_created_at = now,
                         r_updated_at = now\<rparr>
              in (db\<lparr>rides := rides db @ [row]\<rparr>,
                  Inr \<lparr>created = row,
                       availableDrivers =
                         (if truthy_string (vehicleType b)
                          then Some (available_drivers db (the (vehicleType b))) else None)\<rparr>))))"

section \<open>PATCH /rides/:id\<close>

record update_body =
  status :: "string option"
  fare :: "real option"
  distance :: "real option"
  durationMinutes :: "real option"

definition status_of_text :: "string \<Rightarrow> ride_status option" where
  "status_of_text s =
     (if s = ''pending'' then Some Pending
      else if s = ''accepted'' then Some Accepted
      else if s = ''in-progress'' then Some InProgress
      else if s = ''completed'' then Some Completed
      else if s = ''canceled'' then Some Canceled
      else None)"

definition updateRideSchema :: "update_body \<Rightarrow> string option" where
  "updateRideSchema b =
     (if (case status b of None \<Rightarrow> False | Some s \<Rightarrow> status_of_text s = None) then Some ''status''
      else if (case fare b of None \<Rightarrow> False | Some v \<Rightarrow> v < 0) then Some ''fare''
      else if (case distance b of None \<Rightarrow> False | Some v \<Rightarrow> v < 0) then Some ''distance''
      else if (case durationMinutes b of None \<Rightarrow> False | Some v \<Rightarrow> v < 0)
        then Some ''durationMinutes''
      else None)"

text \<open>
  The permission query of the handler: the ride by id, and for a driver with a driver
  record also \<^verbatim>\<open>AND driver_id = $2\<close>.
\<close>

definition update_permission :: "store \<Rightarrow> req_user \<Rightarrow> (ride \<Rightarrow> bool) list" where
  "update_permission db u =
     (if user_role u = Driver then
        (case select_driver_ids db (user_id u) of
           [] \<Rightarrow> []
         | did # _ \<Rightarrow> [\<lambda>r. r_driver_id r = Some did])
      else [])"

text \<open>The SET list, built field by field from the keys that are present.\<close>

definition apply_update :: "update_body \<Rightarrow> nat \<Rightarrow> ride \<Rightarrow> ride" where
  "apply_update b now r =
     (let r1 = (case status b of None \<Rightarrow> r | Some s \<Rightarrow> r\<lparr>r_status := the (status_of_text s)\<rparr>);
          r2 = (case fare b of None \<Rightarrow> r1 | Some v \<Rightarrow> r1\<lparr>r_fare := Some v\<rparr>);
          r3 = (case distance b of None \<Rightarrow> r2 | Some v \<Rightarrow> r2\<lparr>r_distance := Some v\<rparr>);
          r4 = (case durationMinutes b of None \<Rightarrow> r3 | Some v \<Rightarrow> r3\<lparr>r_duration_minutes := Some v\<rparr>)
      in r4\<lparr>r_updated_at := now\<rparr>)"

text \<open>
  \<^verbatim>\<open>UPDATE rides SET ... WHERE id = $n RETURNING *\<close>: every row with the id is rewritten,
  the rewritten rows are returned.
\<close>

definition update_rides_where_id :: "(ride \<Rightarrow> ride) \<Rightarrow> nat \<Rightarrow> store \<Rightarrow> store \<times> ride list" where
  "update_rides_where_id f rideId db =
     (db\<lparr>rides := map (\<lambda>r. if r_id r = rideId then f r else r) (rides db)\<rparr>,
      map f (filter (\<lambda>r. r_id r = rideId) (rides db)))"

definition first_row :: "'a list \<Rightarrow> 'a option" where
  "first_row rows = (case rows of [] \<Rightarrow> None | row # _ \<Rightarrow> Some row)"

definition updateRide ::
  "store \<Rightarrow> nat \<Rightarrow> req_user \<Rightarrow> nat \<Rightarrow> update_body \<Rightarrow> store \<times> (app_error + ride option)" where
  "updateRide db now u rideId b =
     (case requireRole [Driver, Admin] u of
        Some e \<Rightarrow> (db, Inl e)
      | None \<Rightarrow>
         (case updateRideSchema b of
            Some k \<Rightarrow> (db, Inl (AppError k 400))
          | None \<Rightarrow>
             (case filter (where_all ((\<lambda>r. r_id r = rideId) # update_permission db u)) (rides db) of
                [] \<Rightarrow> (db, Inl (AppError ''Ride not found or no permission'' 404))
              | _ # _ \<Rightarrow>
                 (let (db', rows) = update_rides_where_id (apply_update b now) rideId db
                  in (db', Inr (first_row rows))))))"

section \<open>POST /rides/:id/assign\<close>

text \<open>
  \<^verbatim>\<open>driverId\<close> comes from the request body; \<^verbatim>\<open>!driverId\<close> holds for a missing value and
  for 0. The handler issues three statements, each awaited: the ride check, the driver
  check and the update.
\<close>

definition truthy_id :: "nat option \<Rightarrow> bool" where
  "truthy_id x = (case x of None \<Rightarrow> False | Some n \<Rightarrow> n \<noteq> 0)"

text \<open>\<^verbatim>\<open>SELECT * FROM rides WHERE id = $1 AND status = $2\<close> with \<^verbatim>\<open>'pending'\<close>\<close>

definition select_pending_ride :: "store \<Rightarrow> nat \<Rightarrow> ride list" where
  "select_pending_ride db rideId =
     filter (\<lambda>r. r_id r = rideId \<and> r_status r = Pending) (rides db)"

text \<open>
  \<^verbatim>\<open>SELECT d.*, v.id as vehicle_id FROM drivers d LEFT JOIN vehicles v ON d.id = v.driver_id
  WHERE d.id = $1 AND d.availability = true\<close>: one row per vehicle of the driver, and one row
  with a null vehicle id for a driver without a vehicle.
\<close>

definition left_join_vehicles :: "store \<Rightarrow> driver \<Rightarrow> (driver \<times> nat option) list" where
  "left_join_vehicles db d =
     (case filter (\<lambda>v. v_driver_id v = Some (d_id d)) (vehicles db) of
        [] \<Rightarrow> [(d, None)]
      | v # vs \<Rightarrow> map (\<lambda>v. (d, Some (v_id v))) (v # vs))"

definition select_available_driver :: "store \<Rightarrow> nat \<Rightarrow> (driver \<times> nat option) list" where
  "select_available_driver db driverId =
     concat (map (left_join_vehicles db)
       (filter (\<lambda>d. d_id d = driverId \<and> d_availability d) (drivers db)))"

definition assign_row :: "nat \<Rightarrow> nat option \<Rightarrow> nat \<Rightarrow> ride \<Rightarrow> ride" where
  "assign_row driverId vehicleId now r =
     r\<lparr>r_driver_id := Some driverId, r_vehicle_id := vehicleId,
       r_status := Accepted, r_updated_at := now\<rparr>"

definition assignDriver ::
  "store \<Rightarrow> nat \<Rightarrow> nat \<Rightarrow> nat option \<Rightarrow> store \<times> (app_error + ride option)" where
  "assignDriver db now rideId driverId =
     (if \<not> truthy_id driverId then (db, Inl (AppError ''Driver ID is required'' 400))
      else
        (case select_pending_ride db rideId of
           [] \<Rightarrow> (db, Inl (AppError ''Ride not found or not available for assignment'' 404))
         | _ # _ \<Rightarrow>
            (case select_available_driver db (the driverId) of
               [] \<Rightarrow> (db, Inl (AppError ''Driver not found or not available'' 404))
             | (d, vehicleId) # _ \<Rightarrow>
                (let (db', rows) =
                       update_rides_where_id (assign_row (the driverId) vehicleId now) rideId db
                 in (db', Inr (first_row rows))))))"

text \<open>The route: \<^verbatim>\<open>requireRole(['admin'])\<close>, then the handler.\<close>

definition assignRoute ::
  "store \<Rightarrow> nat \<Rightarrow> req_user \<Rightarrow> nat \<Rightarrow> nat option \<Rightarrow> store \<times> (app_error + ride option)" where
  "assignRoute db now u rideId driverId =
     (case requireRole [Admin] u of
        Some e \<Rightarrow> (db, Inl e)
      | None \<Rightarrow> assignDriver db now rideId driverId)"

subsection \<open>The handler statement by statement\<close>

text \<open>
  Between two awaited statements another request may run. A request in flight is at one of
  its three statements, or has answered. One step of a request runs its next statement on
  the store.
\<close>

datatype assign_pc =
    AtRideCheck
  | AtDriverCheck
  | AtUpdate "nat option"
  | Answered "app_error + ride option"

definition assign_start :: "nat option \<Rightarrow> assign_pc" where
  "assign_start driverId =
     (if \<not> truthy_id driverId then Answered (Inl (AppError ''Driver ID is required'' 400))
      else AtRideCheck)"

definition assign_step :: "nat \<Rightarrow> nat \<Rightarrow> nat option \<Rightarrow> store \<times> assign_pc \<Rightarrow> store \<times> assign_pc" where
  "assign_step now rideId driverId s =
     (case s of (db, pc) \<Rightarrow>
       (case pc of
          AtRideCheck \<Rightarrow>
            (case select_pending_ride db rideId of
               [] \<Rightarrow> (db, Answered (Inl (AppError ''Ride not found or not available for assignment'' 404)))
             | _ # _ \<Rightarrow> (db, AtDriverCheck))
        | AtDriverCheck \<Rightarrow>
            (case select_available_driver db (the driverId) of
               [] \<Rightarrow> (db, Answered (Inl (AppError ''Driver not found or not available'' 404)))
             | (d, vehicleId) # _ \<Rightarrow> (db, AtUpdate vehicleId))
        | AtUpdate vehicleId \<Rightarrow>
            (let (db', rows) =
                   update_rides_where_id (assign_row (the driverId) vehicleId now) rideId db
             in (db', Answered (Inr (first_row rows))))
        | Answered a \<Rightarrow> (db, Answered a)))"

text \<open>
  Two requests for the same ride, naming drivers \<open>x\<close> and \<open>y\<close>, under a schedule: \<open>True\<close>
  lets the first request run its next statement, \<open>False\<close> the second.
\<close>

fun run_two ::
  "nat \<Rightarrow> nat \<Rightarrow> nat option \<Rightarrow> nat option \<Rightarrow> bool list \<Rightarrow> store \<times> assign_pc \<times> assign_pc
     \<Rightarrow> store \<times> assign_pc \<times> assign_pc" where
  "run_two now rideId x y [] s = s"
| "run_two now rideId x y (True # sched) (db, pcA, pcB) =
     (let (db', pcA') = assign_step now rideId x (db, pcA)
      in run_two now rideId x y sched (db', pcA', pcB))"
| "run_two now rideId x y (False # sched) (db, pcA, pcB) =
     (let (db', pcB') = assign_step now rideId y (db, pcB)
      in run_two now rideId x y sched (db', pcA, pcB'))"

definition succeeded :: "assign_pc \<Rightarrow> bool" where
  "succeeded pc = (case pc of Answered (Inr _) \<Rightarrow> True | _ \<Rightarrow> False)"

section \<open>GET /rides/:id/tracking\<close>

text \<open>
  The permission query: the ride by id whose requester is the caller, or, for a driver with
  a driver record, whose driver is the caller. An empty answer is refused unless the caller
  is an admin.
\<close>

definition tracking_permission :: "store \<Rightarrow> req_user \<Rightarrow> nat \<Rightarrow> ride list" where
  "tracking_permission db u rideId =
     (let driver_clause =
            (if user_role u = Driver then
               (case select_driver_ids db (user_id u) of
                  [] \<Rightarrow> (\<lambda>r. False)
                | did # _ \<Rightarrow> (\<lambda>r. r_driver_id r = Some did))
             else (\<lambda>r. False))
      in filter (\<lambda>r. r_id r = rideId \<and> (r_user_id r = user_id u \<or> driver_clause r)) (rides db))"

text \<open>\<^verbatim>\<open>SELECT * FROM ride_tracking WHERE ride_id = $1 ORDER BY timestamp DESC LIMIT 50\<close>\<close>

definition select_tracking :: "store \<Rightarrow> nat \<Rightarrow> tracking list" where
  "select_tracking db rideId =
     take 50 (order_by_desc t_timestamp (filter (\<lambda>t. t_ride_id t = rideId) (ride_tracking db)))"

definition getTracking :: "store \<Rightarrow> req_user \<Rightarrow> nat \<Rightarrow> app_error + tracking list" where
  "getTracking db u rideId =
     (if tracking_permission db u rideId = [] \<and> user_role u \<noteq> Admin
      then Inl (AppError ''No permission to view this ride tracking'' 403)
      else Inr (select_tracking db rideId))"

section \<open>Payments\<close>

text \<open>
  What \<^verbatim>\<open>stripe.paymentIntents.retrieve\<close> answers is an input of the model: the intent's
  status and the user id of its metadata, or \<open>None\<close> when the call throws.
\<close>

record payment_intent =
  pi_id :: string
  pi_status :: string
  pi_metadata_userId :: string

text \<open>
  \<^verbatim>\<open>UPDATE payments SET ... WHERE ...\<close> on a table that has the columns of the SET list:
  the matching rows are rewritten and, with \<^verbatim>\<open>RETURNING *\<close>, returned.
\<close>

definition update_payments_where ::
  "(payment \<Rightarrow> bool) \<Rightarrow> (payment \<Rightarrow> payment) \<Rightarrow> store \<Rightarrow> store \<times> payment list" where
  "update_payments_where cond f db =
     (db\<lparr>payments := map (\<lambda>p. if cond p then f p else p) (payments db)\<rparr>,
      map f (filter cond (payments db)))"

text \<open>The columns of \<^verbatim>\<open>payments\<close> in \<^verbatim>\<open>initDatabase\<close>.\<close>

definition payments_columns :: "string list" where
  "payments_columns = [''id'', ''ride_id'', ''user_id'', ''amount'', ''method'', ''status'',
     ''stripe_payment_intent_id'', ''transaction_id'', ''payment_date'', ''created_at'']"

text \<open>
  What \<^verbatim>\<open>query\<close> of src/config/database.js returns to a handler for an UPDATE of
  \<^verbatim>\<open>payments\<close> with the given SET list. When the list names a column the table does not
  have, PostgreSQL refuses the statement, \<^verbatim>\<open>query\<close> catches the error and answers from
  \<^verbatim>\<open>executeInMemoryQuery\<close>, which has no rows for an UPDATE; nothing is written.
\<close>

definition query_update_payments ::
  "string list \<Rightarrow> (payment \<Rightarrow> bool) \<Rightarrow> (payment \<Rightarrow> payment) \<Rightarrow> store \<Rightarrow> store \<times> payment list" where
  "query_update_payments set_columns cond f db =
     (if known_columns payments_columns set_columns then update_payments_where cond f db
      else (db, []))"

text \<open>\<^verbatim>\<open>UPDATE rides SET status = $1, updated_at = NOW() WHERE id = $2\<close> with \<^verbatim>\<open>'completed'\<close>\<close>

definition complete_ride :: "nat \<Rightarrow> nat \<Rightarrow> store \<Rightarrow> store" where
  "complete_ride now rideId db =
     fst (update_rides_where_id (\<lambda>r. r\<lparr>r_status := Completed, r_updated_at := now\<rparr>) rideId db)"

record confirmation =
  conf_payment :: payment
  conf_stripeStatus :: string

text \<open>
  The body of the \<^verbatim>\<open>try\<close> block of POST /payments/confirm/:paymentIntentId. Its statement
  is \<^verbatim>\<open>UPDATE payments SET status = $1, payment_date = NOW(), updated_at = NOW() WHERE
  stripe_payment_intent_id = $2 AND user_id = $3 RETURNING *\<close>; the table has no column
  \<^verbatim>\<open>updated_at\<close>.
\<close>

definition confirm_try ::
  "store \<Rightarrow> nat \<Rightarrow> req_user \<Rightarrow> string \<Rightarrow> payment_intent option \<Rightarrow> store \<times> (app_error + confirmation)" where
  "confirm_try db now u paymentIntentId retrieved =
     (case retrieved of
        None \<Rightarrow> (db, Inl (AppError ''stripe'' 500))
      | Some paymentIntent \<Rightarrow>
         (if pi_metadata_userId paymentIntent \<noteq> user_id u
          then (db, Inl (AppError ''Unauthorized access to payment'' 403))
          else
            (let (db1, rows) =
                   query_update_payments [''status'', ''payment_date'', ''updated_at'']
                     (\<lambda>p. p_stripe_payment_intent_id p = paymentIntentId \<and> p_user_id p = user_id u)
                     (\<lambda>p. p\<lparr>p_status := (if pi_status paymentIntent = ''succeeded''
                                           then PaymentCompleted else PaymentFailed),
                             p_payment_date := now\<rparr>)
                     db
             in (case rows of
                   [] \<Rightarrow> (db1, Inl (AppError ''Payment record not found'' 404))
                 | payment # _ \<Rightarrow>
                    (let db2 = (if pi_status paymentIntent = ''succeeded''
                                then complete_ride now (p_ride_id payment) db1 else db1)
                     in (db2, Inr \<lparr>conf_payment = payment,
                                   conf_stripeStatus = pi_status paymentIntent\<rparr>))))))"

text \<open>The \<^verbatim>\<open>catch\<close> turns every error of the block into the same 500.\<close>

definition confirmPayment ::
  "store \<Rightarrow> nat \<Rightarrow> req_user \<Rightarrow> string \<Rightarrow> payment_intent option \<Rightarrow> store \<times> (app_error + confirmation)" where
  "confirmPayment db now u paymentIntentId retrieved =
     (case confirm_try db now u paymentIntentId retrieved of
        (db', Inl e) \<Rightarrow> (db', Inl (AppError ''Failed to confirm payment'' 500))
      | (db', Inr r) \<Rightarrow> (db', Inr r))"

text \<open>
  The handler of POST /payments/webhook, as a function of what
  \<^verbatim>\<open>stripe.webhooks.constructEvent\<close> gives it: the message of the error it throws, or the
  event.
\<close>

record stripe_event =
  ev_type :: string
  ev_object_id :: string

definition webhook :: "store \<Rightarrow> nat \<Rightarrow> string + stripe_event \<Rightarrow> store \<times> (app_error + bool)" where
  "webhook db now constructed =
     (case constructed of
        Inl err \<Rightarrow> (db, Inl (AppError (''Webhook Error: '' @ err) 400))
      | Inr event \<Rightarrow>
         (if ev_type event = ''payment_intent.succeeded'' then
            (fst (update_payments_where
                    (\<lambda>p. p_stripe_payment_intent_id p = ev_object_id event)
                    (\<lambda>p. p\<lparr>p_status := PaymentCompleted, p_payment_date := now\<rparr>) db),
             Inr True)
          else if ev_type event = ''payment_intent.payment_failed'' then
            (fst (update_payments_where
                    (\<lambda>p. p_stripe_payment_intent_id p = ev_object_id event)
                    (\<lambda>p. p\<lparr>p_status := PaymentFailed\<rparr>) db),
             Inr True)
          else (db, Inr True)))"

text \<open>
  The route as server.js mounts it. \<^verbatim>\<open>app.use(express.json())\<close> comes before the routers,
  so the body of a request has been read when the router's \<^verbatim>\<open>express.raw\<close> runs:
  \<^verbatim>\<open>req.body\<close> is the parsed object for a JSON request and the empty object otherwise, and
  \<^verbatim>\<open>express.raw\<close> leaves a body that was read as it is. \<^verbatim>\<open>constructEvent\<close> checks the
  signature over the raw bytes and throws for any other payload; for a raw payload its
  answer is an input. \<^verbatim>\<open>authenticateToken\<close> stands before the router; what it answers
  (401 or 403, or the caller) is an input too.
\<close>

datatype request_body = ParsedObject | EmptyObject | RawBuffer

definition express_json :: "bool \<Rightarrow> request_body" where
  "express_json is_json = (if is_json then ParsedObject else EmptyObject)"

definition express_raw :: "bool \<Rightarrow> request_body \<Rightarrow> request_body" where
  "express_raw is_json body =
     (if body = ParsedObject then body else if is_json then RawBuffer else body)"

definition constructEvent ::
  "request_body \<Rightarrow> string \<Rightarrow> string + stripe_event \<Rightarrow> string + stripe_event" where
  "constructEvent body err verified = (case body of RawBuffer \<Rightarrow> verified | _ \<Rightarrow> Inl err)"

definition webhookRoute ::
  "store \<Rightarrow> nat \<Rightarrow> app_error + req_user \<Rightarrow> bool \<Rightarrow> string \<Rightarrow> string + stripe_event \<Rightarrow>
     store \<times> (app_error + bool)" where
  "webhookRoute db now authenticated is_json err verified =
     (case authenticated of
        Inl e \<Rightarrow> (db, Inl e)
      | Inr u \<Rightarrow>
          webhook db now (constructEvent (express_raw is_json (express_json is_json)) err verified))"

section \<open>POST /auth/register\<close>







text \<open>A row of a result: a row of \<^verbatim>\<open>users\<close>, or the made-up row of the in-memory fallback.\<close>

datatype row = UserRow user | FakeRow

























section \<open>The ride status invariant\<close>

text \<open>
  The invariant of the data model: a ride with a driver or a vehicle is not pending.
\<close>

definition ride_invariant :: "ride \<Rightarrow> bool" where
  "ride_invariant r = (r_status r \<noteq> Pending \<or> (r_driver_id r = None \<and> r_vehicle_id r = None))"

definition store_invariant :: "store \<Rightarrow> bool" where
  "store_invariant db = list_all ride_invariant (rides db)"

section \<open>Example data\<close>

definition ride1 :: ride where
  "ride1 = \<lparr>r_id = 1, r_user_id = ''p1'', r_driver_id = Some 7, r_vehicle_id = Some 3,
     r_start_location = ''Home'', r_end_location = ''Clinic'',
     r_start_latitude = None, r_start_longitude = None,
     r_end_latitude = None, r_end_longitude = None,
     r_ride_date = 100, r_status = Accepted, r_fare = Some 15, r_distance = None,
     r_duration_minutes = None, r_special_requirements = None, r_emergency_contact = None,
     r_created_at = 10, r_updated_at = 20\<rparr>"

definition ride2 :: ride where
  "ride2 = \<lparr>r_id = 2, r_user_id = ''p1'', r_driver_id = None, r_vehicle_id = None,
     r_start_location = ''Home'', r_end_location = ''Hospital'',
     r_start_latitude = None, r_start_longitude = None,
     r_end_latitude = None, r_end_longitude = None,
     r_ride_date = 200, r_status = Pending, r_fare = Some 15, r_distance = None,
     r_duration_minutes = None, r_special_requirements = None, r_emergency_contact = None,
     r_created_at = 30, r_updated_at = 30\<rparr>"

definition driver7 :: driver where
  "driver7 = \<lparr>d_id = 7, d_user_id = ''d1'', d_license_number = ''L-7'', d_vehicle_type = ''van'',
     d_availability = True, d_rating = 5\<rparr>"

definition driver8 :: driver where
  "driver8 = \<lparr>d_id = 8, d_user_id = ''d8'', d_license_number = ''L-8'', d_vehicle_type = ''car'',
     d_availability = True, d_rating = 4\<rparr>"

definition vehicle3 :: vehicle where
  "vehicle3 = \<lparr>v_id = 3, v_driver_id = Some 7, v_license_plate = ''MED-3'', v_capacity = 4\<rparr>"

definition payment1 :: payment where
  "payment1 = \<lparr>p_id = 1, p_ride_id = 2, p_user_id = ''p1'', p_amount = 15,
     p_method = ''credit_card'', p_status = PaymentPending,
     p_stripe_payment_intent_id = ''pi_1'', p_payment_date = 40\<rparr>"

definition db1 :: store where
  "db1 = \<lparr>users = [], drivers = [driver7, driver8], vehicles = [vehicle3],
     rides = [ride1, ride2], payments = [payment1], ride_tracking = []\<rparr>"

definition driver_without_profile :: req_user where
  "driver_without_profile = \<lparr>user_id = ''d2'', user_role = Driver\<rparr>"

definition patient1 :: req_user where
  "patient1 = \<lparr>user_id = ''p1'', user_role = Patient\<rparr>"

definition succeeded_event :: stripe_event where
  "succeeded_event = \<lparr>ev_type = ''payment_intent.succeeded'', ev_object_id = ''pi_1''\<rparr>"

definition body_equator_pole :: create_body where
  "body_equator_pole = \<lparr>startLocation = Some ''Quito'', endLocation = Some ''Pole'',
     startLatitude = Some 0, startLongitude = Some 10, endLatitude = Some 90,
     endLongitude = Some 10, rideDate = Some 500, specialRequirements = None,
     emergencyContact = None, vehicleType = None\<rparr>"






definition sample :: "nat \<Rightarrow> tracking" where
  "sample i = \<lparr>t_id = i, t_ride_id = 2, t_latitude = 40, t_longitude = -75,
     t_timestamp = 1000 + i, t_speed = None, t_heading = None\<rparr>"

definition db_tracked :: store where
  "db_tracked = db1\<lparr>ride_tracking := map sample [0..<60]\<rparr>"

definition admin1 :: req_user where
  "admin1 = \<lparr>user_id = ''a1'', user_role = Admin\<rparr>"

definition body_back_to_pending :: update_body where
  "body_back_to_pending = \<lparr>status = Some ''pending'', fare = None, distance = None,
     durationMinutes = None\<rparr>"

definition body_in_progress :: update_body where
  "body_in_progress = \<lparr>status = Some ''in-progress'', fare = None, distance = None,
     durationMinutes = None\<rparr>"

lemmas example_defs = ride1_def ride2_def driver7_def driver8_def vehicle3_def payment1_def
  db1_def driver_without_profile_def patient1_def succeeded_event_def body_equator_pole_def
  admin1_def body_back_to_pending_def body_in_progress_def


section \<open>Properties\<close>

subsection \<open>Role filter\<close>

lemma role_filter_no_profile:
  "user_role u = Driver \<Longrightarrow> select_driver_ids db (user_id u) = [] \<Longrightarrow> role_filter db u = []"
  by (simp add: role_filter_def)

text \<open>
  Claim C1 says that a driver identity without a driver profile gets the empty list from
  GET /rides and NotFound from GET /rides/:id. The handlers add the driver clause only when
  the driver record exists, so such a caller is not restricted at all: in the example store
  the caller \<open>d2\<close> has no driver record, the list holds every ride, and ride 1, which
  belongs to driver 7, is returned by id.
\<close>

theorem driver_without_profile_unscoped:
  "select_driver_ids db1 (user_id driver_without_profile) = [] \<and>
   page_rides (listRides db1 driver_without_profile None 20 0) = [ride2, ride1] \<and>
   getRide db1 driver_without_profile 1 = Inr ride1 \<and>
   r_driver_id ride1 = Some 7"
  by (simp add: listRides_def getRide_def role_filter_def status_filter_def select_driver_ids_def
      where_all_def order_by_desc_def example_defs)

subsection \<open>Fares\<close>

lemma sin_quarter_sq: "sin (pi / 4) * sin (pi / 4) = (1/2::real)"
  by (simp add: sin_45)

lemma atan2_diag: "0 < x \<Longrightarrow> atan2 x x = pi / 4"
  by (simp add: atan2_def arctan_one)

lemma calculateDistance_equator_pole: "calculateDistance 0 10 90 10 = 3959 * pi / 2"
proof -
  have "calculateDistance 0 10 90 10 = 3959 * (2 * atan2 (sqrt (1/2)) (sqrt (1 - 1/2)))"
    unfolding calculateDistance_def Let_def by (simp add: sin_quarter_sq)
  also have "\<dots> = 3959 * (2 * (pi / 4))"
    by (simp add: atan2_diag)
  finally show ?thesis by simp
qed

lemma createRide_equator_pole:
  "createRide db1 100 patient1 body_equator_pole =
     (db1\<lparr>rides := rides db1 @ [\<lparr>r_id = 3, r_user_id = ''p1'', r_driver_id = None, r_vehicle_id = None,
     r_start_location = ''Quito'', r_end_location = ''Pole'',
     r_start_latitude = Some 0, r_start_longitude = Some 10,
     r_end_latitude = Some 90, r_end_longitude = Some 10,
     r_ride_date = 500, r_status = Pending, r_fare = Some 15, r_distance = None,
     r_duration_minutes = None, r_special_requirements = None, r_emergency_contact = None,
     r_created_at = 100, r_updated_at = 100\<rparr>]\<rparr>, Inr \<lparr>created = \<lparr>r_id = 3, r_user_id = ''p1'', r_driver_id = None, r_vehicle_id = None,
     r_start_location = ''Quito'', r_end_location = ''Pole'',
     r_start_latitude = Some 0, r_start_longitude = Some 10,
     r_end_latitude = Some 90, r_end_longitude = Some 10,
     r_ride_date = 500, r_status = Pending, r_fare = Some 15, r_distance = None,
     r_duration_minutes = None, r_special_requirements = None, r_emergency_contact = None,
     r_created_at = 100, r_updated_at = 100\<rparr>, availableDrivers = None\<rparr>)"
  by (simp add: createRide_def requireRole_def createRideSchema_def required_string_def
      optional_string_def optional_number_def estimatedFare_def truthy_number_def
      truthy_string_def next_id_def Let_def example_defs)

text \<open>
  The fare of a request: base fare plus 2.5 per mile when all four coordinates are present
  and none is 0, the base fare when a coordinate is missing or 0.
\<close>

lemma estimatedFare_cases:
  "estimatedFare b =
     (case (startLatitude b, startLongitude b, endLatitude b, endLongitude b) of
        (Some la1, Some lo1, Some la2, Some lo2) \<Rightarrow>
          (if la1 \<noteq> 0 \<and> lo1 \<noteq> 0 \<and> la2 \<noteq> 0 \<and> lo2 \<noteq> 0
           then 15 + calculateDistance la1 lo1 la2 lo2 * 2.5 else 15)
      | _ \<Rightarrow> 15)"
  by (simp add: estimatedFare_def truthy_number_def split: option.splits)

text \<open>
  Claim C5 says that the stored fare is 15.0 plus 2.5 per mile of the haversine distance
  whenever all four coordinates are present. The request from (0, 10) to (90, 10) passes
  the schema and has all four coordinates, its distance is a quarter of the great circle,
  and the stored fare is 15.0: the zero latitude makes the condition of the handler false.
\<close>

theorem zero_latitude_fare_is_base:
  "createRideSchema 100 body_equator_pole = None \<and>
   map r_fare (rides (fst (createRide db1 100 patient1 body_equator_pole))) =
     [Some 15, Some 15, Some 15] \<and>
   15.0 + calculateDistance 0 10 90 10 * 2.5 = 15 + 3959 * pi / 2 * 2.5 \<and>
   15.0 + calculateDistance 0 10 90 10 * 2.5 > (15::real)"
  apply (simp add: createRide_equator_pole calculateDistance_equator_pole)
  apply (simp add: createRideSchema_def required_string_def
      optional_string_def optional_number_def example_defs)
  done

text \<open>
  Claim C10: a ride-creation request that supplies all four coordinates, at least one of
  them 0, stores the base fare 15.0; the created ride is the row appended to the table.
\<close>

theorem zero_coordinate_base_fare:
  assumes "startLatitude b = Some la1" and "startLongitude b = Some lo1"
    and "endLatitude b = Some la2" and "endLongitude b = Some lo2"
    and "la1 = 0 \<or> lo1 = 0 \<or> la2 = 0 \<or> lo2 = 0"
    and "createRide db now u b = (db', Inr res)"
  shows "r_fare (created res) = Some 15.0 \<and> rides db' = rides db @ [created res]"
  using assms
  by (auto simp: createRide_def estimatedFare_def truthy_number_def Let_def
      split: option.splits)

theorem zero_coordinate_base_fare_witness:
  "startLatitude body_equator_pole = Some 0 \<and> 
   (\<exists>db' res. createRide db1 100 patient1 body_equator_pole = (db', Inr res) \<and>
     r_fare (created res) = Some 15 \<and> rides db' = rides db1 @ [created res])"
proof -
  obtain db' res where c: "createRide db1 100 patient1 body_equator_pole = (db', Inr res)"
    by (simp add: createRide_equator_pole)
  have "r_fare (created res) = Some 15.0 \<and> rides db' = rides db1 @ [created res]"
    by (rule zero_coordinate_base_fare [OF _ _ _ _ _ c, of 0 10 90 10])
       (simp_all add: body_equator_pole_def)
  with c show ?thesis by (auto simp: body_equator_pole_def)
qed

subsection \<open>Registration\<close>

lemma no_fake_row1 [simp]: "map UserRow xs @ [UserRow u] \<noteq> FakeRow # zs"
  by (cases xs) auto

lemma no_fake_row2 [simp]: "map UserRow xs \<noteq> FakeRow # zs"
  by (cases xs) auto





lemma store_append_nil: "db\<lparr>users := users db @ [], drivers := drivers db @ []\<rparr> = db"
  by simp
















subsection \<open>Assignment\<close>

lemma filter_key_distinct:
  "distinct (map f xs) \<Longrightarrow> x \<in> set xs \<Longrightarrow> filter (\<lambda>y. f y = f x) xs = [x]"
proof (induction xs)
  case Nil
  then show ?case by simp
next
  case (Cons a xs)
  show ?case
  proof (cases "a = x")
    case True
    with Cons.prems have "\<forall>y\<in>set xs. f y \<noteq> f x" by (auto simp: image_iff)
    then have "filter (\<lambda>y. f y = f x) xs = []" by (simp add: filter_empty_conv)
    with True show ?thesis by simp
  next
    case False
    with Cons.prems have "x \<in> set xs" "f a \<noteq> f x" by (auto simp: image_iff)
    with Cons show ?thesis by simp
  qed
qed

lemma map_key_distinct:
  assumes "distinct (map f xs)" and "x \<in> set xs"
  shows "map (\<lambda>y. if f y = f x then g y else y) xs = map (\<lambda>y. if y = x then g x else y) xs"
proof (rule map_cong [OF refl])
  fix y assume "y \<in> set xs"
  with assms have "f y = f x \<longleftrightarrow> y = x"
    by (meson distinct_map inj_on_def)
  then show "(if f y = f x then g y else y) = (if y = x then g x else y)" by auto
qed

lemma update_rides_where_id_distinct:
  assumes "distinct (map r_id (rides db))" and "R \<in> set (rides db)"
  shows "update_rides_where_id f (r_id R) db =
           (db\<lparr>rides := map (\<lambda>r. if r = R then f R else r) (rides db)\<rparr>, [f R])"
  using filter_key_distinct [OF assms, of ] map_key_distinct [OF assms, of f]
  by (simp add: update_rides_where_id_def)

lemma select_pending_ride_distinct:
  assumes "distinct (map r_id (rides db))" and "R \<in> set (rides db)"
  shows "select_pending_ride db (r_id R) = (if r_status R = Pending then [R] else [])"
proof -
  have "select_pending_ride db (r_id R) =
          filter (\<lambda>r. r_status r = Pending) (filter (\<lambda>r. r_id r = r_id R) (rides db))"
    by (simp add: select_pending_ride_def conj_commute)
  then show ?thesis using filter_key_distinct [OF assms] by simp
qed

lemma left_join_vehicles_head:
  "\<exists>rest. left_join_vehicles db d =
     (d, map_option v_id (first_row (filter (\<lambda>v. v_driver_id v = Some (d_id d)) (vehicles db)))) # rest"
  by (simp add: left_join_vehicles_def first_row_def split: list.splits)

lemma select_available_driver_empty:
  "select_available_driver db x = [] \<longleftrightarrow>
     \<not> list_ex (\<lambda>d. d_id d = x \<and> d_availability d) (drivers db)"
proof -
  have "left_join_vehicles db d \<noteq> []" for d
    using left_join_vehicles_head [of db d] by auto
  then have "select_available_driver db x = [] \<longleftrightarrow>
               filter (\<lambda>d. d_id d = x \<and> d_availability d) (drivers db) = []"
    by (auto simp: select_available_driver_def filter_empty_conv)
  then show ?thesis by (auto simp: list_ex_iff filter_empty_conv)
qed

lemma select_available_driver_head:
  assumes "select_available_driver db x = (d, vid) # rest"
  shows "d_id d = x \<and> d_availability d \<and>
         vid = map_option v_id (first_row (filter (\<lambda>v. v_driver_id v = Some x) (vehicles db)))"
proof -
  let ?ds = "filter (\<lambda>d. d_id d = x \<and> d_availability d) (drivers db)"
  from assms obtain d0 ds where ds: "?ds = d0 # ds"
    by (cases ?ds) (auto simp: select_available_driver_def)
  then have "d0 \<in> set ?ds" by simp
  then have d0: "d_id d0 = x" "d_availability d0" by auto
  from left_join_vehicles_head [of db d0] obtain rest0 where
    "left_join_vehicles db d0 =
       (d0, map_option v_id (first_row (filter (\<lambda>v. v_driver_id v = Some (d_id d0)) (vehicles db)))) # rest0"
    by blast
  with assms ds d0 show ?thesis
    by (simp add: select_available_driver_def)
qed

lemma assignRoute_admin:
  "user_role u = Admin \<Longrightarrow> assignRoute db now u rideId driverId = assignDriver db now rideId driverId"
  by (simp add: assignRoute_def requireRole_def)

lemma assignRoute_other:
  "user_role u \<noteq> Admin \<Longrightarrow>
     assignRoute db now u rideId driverId = (db, Inl (AppError ''Access denied'' 403))"
  by (simp add: assignRoute_def requireRole_def)

lemma assignDriver_success:
  assumes "distinct (map r_id (rides db))" and "R \<in> set (rides db)" and "x \<noteq> 0"
    and "r_status R = Pending"
    and "list_ex (\<lambda>d. d_id d = x \<and> d_availability d) (drivers db)"
  shows "assignDriver db now (r_id R) (Some x) =
           (db\<lparr>rides := map (\<lambda>r. if r = R
                                  then assign_row x (map_option v_id
                                         (first_row (filter (\<lambda>v. v_driver_id v = Some x) (vehicles db))))
                                         now R
                                  else r) (rides db)\<rparr>,
            Inr (Some (assign_row x (map_option v_id
                         (first_row (filter (\<lambda>v. v_driver_id v = Some x) (vehicles db)))) now R)))"
proof (cases "select_available_driver db x")
  case Nil
  with assms(5) show ?thesis using select_available_driver_empty [of db x] by simp
next
  case (Cons row rest)
  obtain d vid where row: "row = (d, vid)" by (cases row)
  from select_available_driver_head [of db x d vid rest] Cons row
  have vid: "vid = map_option v_id (first_row (filter (\<lambda>v. v_driver_id v = Some x) (vehicles db)))"
    by simp
  show ?thesis
    using select_pending_ride_distinct [OF assms(1,2)] assms(3,4) Cons row vid
      update_rides_where_id_distinct [OF assms(1,2)]
    by (simp add: assignDriver_def truthy_id_def first_row_def)
qed

lemma assignDriver_not_pending:
  assumes "distinct (map r_id (rides db))" and "R \<in> set (rides db)" and "x \<noteq> 0"
    and "r_status R \<noteq> Pending"
  shows "assignDriver db now (r_id R) (Some x) =
           (db, Inl (AppError ''Ride not found or not available for assignment'' 404))"
  using select_pending_ride_distinct [OF assms(1,2)] assms(3,4)
  by (simp add: assignDriver_def truthy_id_def)

lemma assignDriver_no_driver:
  assumes "distinct (map r_id (rides db))" and "R \<in> set (rides db)" and "x \<noteq> 0"
    and "r_status R = Pending"
    and "\<not> list_ex (\<lambda>d. d_id d = x \<and> d_availability d) (drivers db)"
  shows "assignDriver db now (r_id R) (Some x) =
           (db, Inl (AppError ''Driver not found or not available'' 404))"
  using select_pending_ride_distinct [OF assms(1,2)] assms(3,4,5)
    select_available_driver_empty [of db x]
  by (simp add: assignDriver_def truthy_id_def)

text \<open>
  Claim C3: for a ride \<open>R\<close> of the store (ids are a primary key) and a driver id \<open>x\<close> that
  the handler accepts as present, the assignment succeeds exactly when \<open>R\<close> is pending and an
  available driver \<open>x\<close> exists. It then rewrites \<open>R\<close> alone, setting the driver, the first
  vehicle of that driver (or null), the status accepted and the update time. Otherwise it
  answers 404 and the store is unchanged.
\<close>

theorem assign_iff_pending_and_available:
  assumes "distinct (map r_id (rides db))" and "R \<in> set (rides db)" and "x \<noteq> 0"
  shows "let R' = R\<lparr>r_driver_id := Some x,
                     r_vehicle_id := map_option v_id
                        (first_row (filter (\<lambda>v. v_driver_id v = Some x) (vehicles db))),
                     r_status := Accepted, r_updated_at := now\<rparr>
         in if r_status R = Pending \<and> list_ex (\<lambda>d. d_id d = x \<and> d_availability d) (drivers db)
            then assignDriver db now (r_id R) (Some x) =
                   (db\<lparr>rides := map (\<lambda>r. if r = R then R' else r) (rides db)\<rparr>, Inr (Some R'))
            else \<exists>e. assignDriver db now (r_id R) (Some x) = (db, Inl e) \<and> statusCode e = 404"
proof (cases "r_status R = Pending")
  case False
  then show ?thesis
    using assignDriver_not_pending [OF assms] by (simp add: AppError_def Let_def)
next
  case True
  show ?thesis
  proof (cases "list_ex (\<lambda>d. d_id d = x \<and> d_availability d) (drivers db)")
    case False
    then show ?thesis
      using True assignDriver_no_driver [OF assms True] by (simp add: AppError_def Let_def)
  next
    case ex: True
    from assignDriver_success [OF assms True ex, of now] True ex show ?thesis
      by (simp add: Let_def assign_row_def)
  qed
qed

theorem assign_iff_pending_and_available_witness:
  "distinct (map r_id (rides db1)) \<and> ride2 \<in> set (rides db1) \<and> ride1 \<in> set (rides db1) \<and>
   assignDriver db1 300 2 (Some 7) =
     (db1\<lparr>rides := [ride1, ride2\<lparr>r_driver_id := Some 7, r_vehicle_id := Some 3,
                                    r_status := Accepted, r_updated_at := 300\<rparr>]\<rparr>,
      Inr (Some (ride2\<lparr>r_driver_id := Some 7, r_vehicle_id := Some 3,
                        r_status := Accepted, r_updated_at := 300\<rparr>))) \<and>
   (\<exists>e. assignDriver db1 300 1 (Some 8) = (db1, Inl e) \<and> statusCode e = 404)"
proof -
  have d: "distinct (map r_id (rides db1))" by (simp add: example_defs)
  have m2: "ride2 \<in> set (rides db1)" and m1: "ride1 \<in> set (rides db1)"
    by (simp_all add: example_defs)
  have n7: "(7::nat) \<noteq> 0" and n8: "(8::nat) \<noteq> 0" by simp_all
  have a: "assignDriver db1 300 2 (Some 7) =
     (db1\<lparr>rides := [ride1, ride2\<lparr>r_driver_id := Some 7, r_vehicle_id := Some 3,
                                    r_status := Accepted, r_updated_at := 300\<rparr>]\<rparr>,
      Inr (Some (ride2\<lparr>r_driver_id := Some 7, r_vehicle_id := Some 3,
                        r_status := Accepted, r_updated_at := 300\<rparr>)))"
    using assign_iff_pending_and_available [OF d m2 n7, of 300]
    by (simp add: Let_def first_row_def example_defs)
  have b: "\<exists>e. assignDriver db1 300 1 (Some 8) = (db1, Inl e) \<and> statusCode e = 404"
    using assign_iff_pending_and_available [OF d m1 n8, of 300]
    by (simp add: Let_def example_defs)
  from d m2 m1 a b show ?thesis by blast
qed

subsection \<open>Two assignment requests\<close>

lemma assign_step_answered [simp]:
  "assign_step now rideId driverId (db, Answered a) = (db, Answered a)"
  by (simp add: assign_step_def)

lemma assign_alone:
  "assign_step now rideId driverId
     (assign_step now rideId driverId
        (assign_step now rideId driverId (db, assign_start driverId))) =
   (fst (assignDriver db now rideId driverId), Answered (snd (assignDriver db now rideId driverId)))"
proof (cases "truthy_id driverId")
  case False
  then show ?thesis by (simp add: assign_start_def assignDriver_def)
next
  case True
  show ?thesis
  proof (cases "select_pending_ride db rideId")
    case Nil
    with True show ?thesis
      by (simp add: assign_start_def assignDriver_def assign_step_def)
  next
    case pending: (Cons r rs)
    then have s1: "assign_step now rideId driverId (db, AtRideCheck) = (db, AtDriverCheck)"
      by (simp add: assign_step_def)
    show ?thesis
    proof (cases "select_available_driver db (the driverId)")
      case Nil
      then have "assign_step now rideId driverId (db, AtDriverCheck) =
          (db, Answered (Inl (AppError ''Driver not found or not available'' 404)))"
        by (simp add: assign_step_def)
      with True pending Nil s1 show ?thesis
        by (simp add: assign_start_def assignDriver_def)
    next
      case (Cons row rows)
      obtain d vehicleId where row: "row = (d, vehicleId)" by (cases row)
      with Cons have s2: "assign_step now rideId driverId (db, AtDriverCheck) =
          (db, AtUpdate vehicleId)"
        by (simp add: assign_step_def)
      have s3: "assign_step now rideId driverId (db, AtUpdate vehicleId) =
          (fst (update_rides_where_id (assign_row (the driverId) vehicleId now) rideId db),
           Answered (Inr (first_row
             (snd (update_rides_where_id (assign_row (the driverId) vehicleId now) rideId db)))))"
        by (simp add: assign_step_def case_prod_beta)
      from True pending Cons row s1 s2 s3 show ?thesis
        by (simp add: assign_start_def assignDriver_def case_prod_beta)
    qed
  qed
qed

lemma run_two_first_then_second:
  "run_two now rideId x y [True, True, True, False, False, False]
     (db, assign_start x, assign_start y) =
   (let a = assignDriver db now rideId x;
        b = assignDriver (fst a) now rideId y
    in (fst b, Answered (snd a), Answered (snd b)))"
proof -
  obtain db1 pc1 where s1: "assign_step now rideId x (db, assign_start x) = (db1, pc1)"
    by (cases "assign_step now rideId x (db, assign_start x)")
  obtain db2 pc2 where s2: "assign_step now rideId x (db1, pc1) = (db2, pc2)"
    by (cases "assign_step now rideId x (db1, pc1)")
  obtain db3 pc3 where s3: "assign_step now rideId x (db2, pc2) = (db3, pc3)"
    by (cases "assign_step now rideId x (db2, pc2)")
  from assign_alone [of now rideId x db] s1 s2 s3
  have a: "db3 = fst (assignDriver db now rideId x)"
          "pc3 = Answered (snd (assignDriver db now rideId x))" by simp_all
  obtain db4 pc4 where s4: "assign_step now rideId y (db3, assign_start y) = (db4, pc4)"
    by (cases "assign_step now rideId y (db3, assign_start y)")
  obtain db5 pc5 where s5: "assign_step now rideId y (db4, pc4) = (db5, pc5)"
    by (cases "assign_step now rideId y (db4, pc4)")
  obtain db6 pc6 where s6: "assign_step now rideId y (db5, pc5) = (db6, pc6)"
    by (cases "assign_step now rideId y (db5, pc5)")
  from assign_alone [of now rideId y db3] s4 s5 s6
  have b: "db6 = fst (assignDriver db3 now rideId y)"
          "pc6 = Answered (snd (assignDriver db3 now rideId y))" by simp_all
  show ?thesis
    using s1 s2 s3 s4 s5 s6 a b by (simp add: Let_def)
qed

text \<open>
  Claim C4 says that the assignment is a compare-and-swap on the status, so that of two
  concurrent requests for one pending ride exactly one succeeds. The handler checks the
  status with a SELECT and later updates by id alone. When the statements of two requests
  alternate, both pass the check before either updates: both answer with success, and the
  ride ends with the driver of the request that updated last.
\<close>

theorem interleaved_assignments_both_succeed:
  "(case run_two 300 2 (Some 7) (Some 8) [True, False, True, False, True, False]
          (db1, assign_start (Some 7), assign_start (Some 8)) of
      (db', a, b) \<Rightarrow>
        succeeded a \<and> succeeded b \<and>
        a = Answered (Inr (Some (ride2\<lparr>r_driver_id := Some 7, r_vehicle_id := Some 3,
                                        r_status := Accepted, r_updated_at := 300\<rparr>))) \<and>
        b = Answered (Inr (Some (ride2\<lparr>r_driver_id := Some 8, r_vehicle_id := None,
                                        r_status := Accepted, r_updated_at := 300\<rparr>))) \<and>
        map r_driver_id (filter (\<lambda>r. r_id r = 2) (rides db')) = [Some 8])"
  by (simp add: assign_step_def assign_start_def truthy_id_def select_pending_ride_def
      select_available_driver_def left_join_vehicles_def update_rides_where_id_def
      assign_row_def first_row_def succeeded_def example_defs)

text \<open>
  Claim C4 as amended: when the two requests run one after the other, the first succeeds and
  the second is answered by 404, with the ride left as the first request set it.
\<close>

theorem assign_one_after_the_other:
  assumes "distinct (map r_id (rides db))" and "R \<in> set (rides db)" and "r_status R = Pending"
    and "x \<noteq> 0" and "y \<noteq> 0"
    and "list_ex (\<lambda>d. d_id d = x \<and> d_availability d) (drivers db)"
  shows "let R' = R\<lparr>r_driver_id := Some x,
                     r_vehicle_id := map_option v_id
                        (first_row (filter (\<lambda>v. v_driver_id v = Some x) (vehicles db))),
                     r_status := Accepted, r_updated_at := now\<rparr>;
             db' = db\<lparr>rides := map (\<lambda>r. if r = R then R' else r) (rides db)\<rparr>
         in run_two now (r_id R) (Some x) (Some y) [True, True, True, False, False, False]
              (db, assign_start (Some x), assign_start (Some y)) =
            (db', Answered (Inr (Some R')),
             Answered (Inl (AppError ''Ride not found or not available for assignment'' 404)))"
proof -
  define R' where "R' = R\<lparr>r_driver_id := Some x,
                     r_vehicle_id := map_option v_id
                        (first_row (filter (\<lambda>v. v_driver_id v = Some x) (vehicles db))),
                     r_status := Accepted, r_updated_at := now\<rparr>"
  define db' where "db' = db\<lparr>rides := map (\<lambda>r. if r = R then R' else r) (rides db)\<rparr>"
  have first: "assignDriver db now (r_id R) (Some x) = (db', Inr (Some R'))"
    using assignDriver_success [OF assms(1,2,4,3,6), of now]
    by (simp add: R'_def db'_def assign_row_def)
  have ids: "map r_id (rides db') = map r_id (rides db)"
    by (simp add: db'_def R'_def o_def if_distrib cong: if_cong)
  have d': "distinct (map r_id (rides db'))" using assms(1) ids by simp
  have m': "R' \<in> set (rides db')" using assms(2) by (auto simp: db'_def)
  have "r_id R' = r_id R" "r_status R' \<noteq> Pending" by (simp_all add: R'_def)
  with select_pending_ride_distinct [OF d' m']
  have "select_pending_ride db' (r_id R) = []" by simp
  with assms(5)
  have second: "assignDriver db' now (r_id R) (Some y) =
      (db', Inl (AppError ''Ride not found or not available for assignment'' 404))"
    by (simp add: assignDriver_def truthy_id_def)
  show ?thesis
    unfolding run_two_first_then_second Let_def R'_def [symmetric] db'_def [symmetric]
    by (simp add: first second)
qed

theorem assign_one_after_the_other_witness:
  "distinct (map r_id (rides db1)) \<and> ride2 \<in> set (rides db1) \<and> r_status ride2 = Pending \<and>
   list_ex (\<lambda>d. d_id d = 7 \<and> d_availability d) (drivers db1) \<and>
   run_two 300 2 (Some 7) (Some 8) [True, True, True, False, False, False]
     (db1, assign_start (Some 7), assign_start (Some 8)) =
   (db1\<lparr>rides := [ride1, ride2\<lparr>r_driver_id := Some 7, r_vehicle_id := Some 3,
                                  r_status := Accepted, r_updated_at := 300\<rparr>]\<rparr>,
    Answered (Inr (Some (ride2\<lparr>r_driver_id := Some 7, r_vehicle_id := Some 3,
                                r_status := Accepted, r_updated_at := 300\<rparr>))),
    Answered (Inl (AppError ''Ride not found or not available for assignment'' 404)))"
proof -
  have d: "distinct (map r_id (rides db1))" by (simp add: example_defs)
  have m: "ride2 \<in> set (rides db1)" by (simp add: example_defs)
  have p: "r_status ride2 = Pending" by (simp add: example_defs)
  have n7: "(7::nat) \<noteq> 0" and n8: "(8::nat) \<noteq> 0" by simp_all
  have av: "list_ex (\<lambda>d. d_id d = 7 \<and> d_availability d) (drivers db1)"
    by (simp add: example_defs)
  have "run_two 300 2 (Some 7) (Some 8) [True, True, True, False, False, False]
     (db1, assign_start (Some 7), assign_start (Some 8)) =
   (db1\<lparr>rides := [ride1, ride2\<lparr>r_driver_id := Some 7, r_vehicle_id := Some 3,
                                  r_status := Accepted, r_updated_at := 300\<rparr>]\<rparr>,
    Answered (Inr (Some (ride2\<lparr>r_driver_id := Some 7, r_vehicle_id := Some 3,
                                r_status := Accepted, r_updated_at := 300\<rparr>))),
    Answered (Inl (AppError ''Ride not found or not available for assignment'' 404)))"
    using assign_one_after_the_other [OF d m p n7 n8 av, of 300]
    by (simp add: Let_def first_row_def example_defs)
  with d m p av show ?thesis by blast
qed

subsection \<open>Tracking retrieval\<close>

lemma order_by_desc_sorted:
  "sorted_wrt (\<lambda>a b. key b \<le> key a) (order_by_desc key rows)"
proof -
  have "sorted (map key (sort_key key rows))" by simp
  then have "sorted_wrt (\<lambda>a b. key a \<le> key b) (sort_key key rows)"
    by (simp add: sorted_wrt_map)
  then show ?thesis
    by (simp add: order_by_desc_def sorted_wrt_rev)
qed

lemma order_by_desc_set: "set (order_by_desc key rows) = set rows"
  by (simp add: order_by_desc_def)

lemma order_by_desc_length: "length (order_by_desc key rows) = length rows"
  by (simp add: order_by_desc_def)

lemma sorted_wrt_take_drop:
  assumes "sorted_wrt P xs" and "a \<in> set (take n xs)" and "b \<in> set (drop n xs)"
  shows "P a b"
proof -
  from assms(1) have "sorted_wrt P (take n xs @ drop n xs)" by simp
  with assms(2,3) show ?thesis unfolding sorted_wrt_append by blast
qed

lemma select_tracking_props:
  "length (select_tracking db rideId) =
     min 50 (length (filter (\<lambda>t. t_ride_id t = rideId) (ride_tracking db))) \<and>
   sorted_wrt (\<lambda>a b. t_timestamp b \<le> t_timestamp a) (select_tracking db rideId) \<and>
   set (select_tracking db rideId) \<subseteq> {t \<in> set (ride_tracking db). t_ride_id t = rideId} \<and>
   (\<forall>t \<in> set (ride_tracking db). t_ride_id t = rideId \<and> t \<notin> set (select_tracking db rideId) \<longrightarrow>
      (\<forall>s \<in> set (select_tracking db rideId). t_timestamp t \<le> t_timestamp s))"
proof -
  let ?F = "filter (\<lambda>t. t_ride_id t = rideId) (ride_tracking db)"
  let ?L = "order_by_desc t_timestamp ?F"
  have sel: "select_tracking db rideId = take 50 ?L" by (simp add: select_tracking_def)
  have len: "length (take 50 ?L) = min 50 (length ?F)"
    by (simp add: order_by_desc_length min.commute)
  have srt: "sorted_wrt (\<lambda>a b. t_timestamp b \<le> t_timestamp a) ?L"
    by (rule order_by_desc_sorted)
  then have srt50: "sorted_wrt (\<lambda>a b. t_timestamp b \<le> t_timestamp a) (take 50 ?L)"
    by (rule sorted_wrt_take)
  have sub: "set (take 50 ?L) \<subseteq> {t \<in> set (ride_tracking db). t_ride_id t = rideId}"
    using set_take_subset [of 50 ?L] by (auto simp: order_by_desc_set)
  have newest: "t_timestamp t \<le> t_timestamp s"
    if "t \<in> set (ride_tracking db)" "t_ride_id t = rideId" "t \<notin> set (take 50 ?L)"
       "s \<in> set (take 50 ?L)" for t s
  proof -
    from that(1,2) have "t \<in> set ?L" by (simp add: order_by_desc_set)
    then have "t \<in> set (take 50 ?L) \<union> set (drop 50 ?L)"
      by (metis append_take_drop_id set_append)
    with that(3) have "t \<in> set (drop 50 ?L)" by simp
    from sorted_wrt_take_drop [OF srt that(4) this] show ?thesis .
  qed
  from len srt50 sub newest show ?thesis unfolding sel by blast
qed

text \<open>
  Claim C9: tracking retrieval either refuses a caller who is neither admin, requester nor
  the ride's driver, or returns samples of that ride only, at most 50 and exactly 50 when
  the ride has more, newest first, and no omitted sample of the ride is newer than a
  returned one.
\<close>

theorem tracking_newest_50:
  "case getTracking db u rideId of
     Inl e \<Rightarrow> statusCode e = 403 \<and> user_role u \<noteq> Admin
   | Inr rows \<Rightarrow>
       length rows \<le> 50 \<and>
       length rows = min 50 (length (filter (\<lambda>t. t_ride_id t = rideId) (ride_tracking db))) \<and>
       sorted_wrt (\<lambda>a b. t_timestamp b \<le> t_timestamp a) rows \<and>
       set rows \<subseteq> {t \<in> set (ride_tracking db). t_ride_id t = rideId} \<and>
       (\<forall>t \<in> set (ride_tracking db). t_ride_id t = rideId \<and> t \<notin> set rows \<longrightarrow>
          (\<forall>s \<in> set rows. t_timestamp t \<le> t_timestamp s))"
proof (cases "tracking_permission db u rideId = [] \<and> user_role u \<noteq> Admin")
  case True
  then show ?thesis by (simp add: getTracking_def AppError_def)
next
  case False
  then have "getTracking db u rideId = Inr (select_tracking db rideId)"
    by (auto simp: getTracking_def)
  moreover have "length (select_tracking db rideId) \<le> 50"
    using select_tracking_props [of db rideId] by simp
  ultimately show ?thesis using select_tracking_props [of db rideId] by simp
qed

theorem tracking_newest_50_witness:
  "length (filter (\<lambda>t. t_ride_id t = 2) (ride_tracking db_tracked)) = 60 \<and>
   (\<exists>rows. getTracking db_tracked admin1 2 = Inr rows \<and> length rows = 50 \<and>
      sorted_wrt (\<lambda>a b. t_timestamp b \<le> t_timestamp a) rows) \<and>
   (\<exists>rows. getTracking db_tracked patient1 2 = Inr rows \<and> length rows = 50)"
proof -
  have n: "length (filter (\<lambda>t. t_ride_id t = 2) (ride_tracking db_tracked)) = 60"
    by (simp add: db_tracked_def sample_def filter_map o_def)
  have a: "getTracking db_tracked admin1 2 = Inr (select_tracking db_tracked 2)"
    by (simp add: getTracking_def admin1_def)
  have p: "getTracking db_tracked patient1 2 = Inr (select_tracking db_tracked 2)"
    by (simp add: getTracking_def tracking_permission_def db_tracked_def example_defs)
  from tracking_newest_50 [where db = db_tracked and u = admin1 and rideId = 2] a n
  have "length (select_tracking db_tracked 2) = 50 \<and>
        sorted_wrt (\<lambda>a b. t_timestamp b \<le> t_timestamp a) (select_tracking db_tracked 2)"
    by simp
  with n a p show ?thesis by simp
qed

subsection \<open>Payments\<close>

text \<open>
  The confirmation endpoint never writes: its UPDATE sets \<^verbatim>\<open>updated_at\<close>, which
  \<^verbatim>\<open>payments\<close> does not have, so no row comes back and the handler answers 500.
\<close>

lemma confirm_try_store: "fst (confirm_try db now u paymentIntentId retrieved) = db"
  by (simp add: confirm_try_def query_update_payments_def known_columns_def payments_columns_def
      split: option.splits)

lemma confirmPayment_always_fails:
  "confirmPayment db now u paymentIntentId retrieved =
     (db, Inl (AppError ''Failed to confirm payment'' 500))"
  by (simp add: confirmPayment_def confirm_try_def query_update_payments_def known_columns_def
      payments_columns_def split: option.splits)

text \<open>
  The webhook handler alone, for an event that \<^verbatim>\<open>constructEvent\<close> returned. Behind
  server.js the handler never gets one (see \<open>webhookRoute\<close>); the lemmas say what its
  branches do.
\<close>

lemma update_payments_twice:
  assumes "\<And>p. cond (f p) = cond p" and "\<And>p. g (f p) = g p"
  shows "fst (update_payments_where cond g (fst (update_payments_where cond f db))) =
         fst (update_payments_where cond g db)"
  using assms by (simp add: update_payments_where_def)

lemma webhook_rides: "rides (fst (webhook db now constructed)) = rides db"
  by (simp add: webhook_def update_payments_where_def split: sum.splits)

lemma webhook_answer:
  "snd (webhook db now constructed) =
     (case constructed of Inl err \<Rightarrow> Inl (AppError (''Webhook Error: '' @ err) 400)
      | Inr event \<Rightarrow> Inr True)"
  by (simp add: webhook_def split: sum.splits)

lemma webhook_twice:
  "fst (webhook (fst (webhook db t1 constructed)) t2 constructed) = fst (webhook db t2 constructed)"
  by (simp add: webhook_def update_payments_twice split: sum.splits)

lemma webhook_status:
  "map p_status (payments (fst (webhook db t2 constructed))) =
   map p_status (payments (fst (webhook db t1 constructed)))"
  by (simp add: webhook_def update_payments_where_def split: sum.splits)

lemma webhook_handler_succeeded_event:
  "map p_status (payments (fst (webhook db1 50 (Inr succeeded_event)))) = [PaymentCompleted] \<and>
   map p_ride_id (payments (fst (webhook db1 50 (Inr succeeded_event)))) = [2] \<and>
   map (\<lambda>r. (r_id r, r_status r)) (rides (fst (webhook db1 50 (Inr succeeded_event)))) =
     [(1, Accepted), (2, Pending)]"
  by (simp add: webhook_def update_payments_where_def example_defs)

lemma webhook_handler_replay:
  "fst (webhook (fst (webhook db t1 constructed)) t2 constructed) = fst (webhook db t2 constructed) \<and>
   snd (webhook (fst (webhook db t1 constructed)) t2 constructed) = snd (webhook db t1 constructed) \<and>
   map p_status (payments (fst (webhook (fst (webhook db t1 constructed)) t2 constructed))) =
     map p_status (payments (fst (webhook db t1 constructed))) \<and>
   rides (fst (webhook (fst (webhook db t1 constructed)) t2 constructed)) =
     rides (fst (webhook db t1 constructed)) \<and>
   webhook (fst (webhook db t1 constructed)) t1 constructed = webhook db t1 constructed"
proof -
  have "webhook (fst (webhook db t1 constructed)) t1 constructed = webhook db t1 constructed"
    by (rule prod_eqI) (simp_all add: webhook_twice webhook_answer)
  then show ?thesis
    using webhook_status [of db t2 constructed t1]
    by (simp add: webhook_twice webhook_rides webhook_answer)
qed

lemma webhook_handler_replay_date:
  "map p_payment_date (payments (fst (webhook db1 50 (Inr succeeded_event)))) = [50] \<and>
   map p_payment_date
     (payments (fst (webhook (fst (webhook db1 50 (Inr succeeded_event))) 60 (Inr succeeded_event)))) = [60] \<and>
   fst (webhook (fst (webhook db1 50 (Inr succeeded_event))) 60 (Inr succeeded_event)) \<noteq>
     fst (webhook db1 50 (Inr succeeded_event))"
proof -
  have a: "map p_payment_date (payments (fst (webhook db1 50 (Inr succeeded_event)))) = [50]"
    by (simp add: webhook_def update_payments_where_def example_defs)
  have b: "map p_payment_date
     (payments (fst (webhook (fst (webhook db1 50 (Inr succeeded_event))) 60 (Inr succeeded_event)))) = [60]"
    by (simp add: webhook_def update_payments_where_def example_defs)
  from a b show ?thesis by auto
qed

lemma constructEvent_at_route:
  "constructEvent (express_raw is_json (express_json is_json)) err verified = Inl err"
  by (simp add: constructEvent_def express_raw_def express_json_def)


lemma webhook_delivery_example:
  "webhookRoute db1 50 (Inr patient1) True ''payload is not the raw body'' (Inr succeeded_event) =
     (db1, Inl (AppError ''Webhook Error: payload is not the raw body'' 400))"
  by (simp add: webhookRoute_def constructEvent_at_route webhook_def)


subsection \<open>The ride status invariant\<close>

lemma invariant_map:
  assumes "store_invariant db" and "\<And>r. ride_invariant r \<Longrightarrow> ride_invariant (f r)"
  shows "list_all ride_invariant (map (\<lambda>r. if r_id r = rideId then f r else r) (rides db))"
  using assms by (auto simp: store_invariant_def list_all_iff)

lemma update_rides_where_id_invariant:
  assumes "store_invariant db" and "\<And>r. ride_invariant r \<Longrightarrow> ride_invariant (f r)"
  shows "store_invariant (fst (update_rides_where_id f rideId db))"
  using invariant_map [OF assms] by (simp add: update_rides_where_id_def store_invariant_def)

lemma createRide_invariant:
  assumes "store_invariant db"
  shows "store_invariant (fst (createRide db now u b))"
  using assms
  by (auto simp: createRide_def store_invariant_def ride_invariant_def Let_def
      split: option.splits)

lemma assignDriver_invariant:
  assumes "store_invariant db"
  shows "store_invariant (fst (assignDriver db now rideId driverId))"
proof -
  have "store_invariant (fst (update_rides_where_id (assign_row x v now) rideId db))" for x v
    by (rule update_rides_where_id_invariant [OF assms])
       (simp add: ride_invariant_def assign_row_def)
  then show ?thesis using assms
    by (auto simp: assignDriver_def case_prod_beta split: list.splits)
qed

lemma update_payments_rides: "rides (fst (update_payments_where cond f db)) = rides db"
  by (simp add: update_payments_where_def)

lemma complete_ride_invariant:
  assumes "store_invariant db"
  shows "store_invariant (complete_ride now rideId db)"
  unfolding complete_ride_def
  by (rule update_rides_where_id_invariant [OF assms]) (simp add: ride_invariant_def)

lemma store_invariant_rides: "rides db' = rides db \<Longrightarrow> store_invariant db' = store_invariant db"
  by (simp add: store_invariant_def)

lemma confirmPayment_invariant:
  assumes "store_invariant db"
  shows "store_invariant (fst (confirmPayment db now u pid retrieved))"
  using assms by (simp add: confirmPayment_always_fails)

lemma status_of_text_pending: "status_of_text s = Some Pending \<Longrightarrow> s = ''pending''"
  by (simp add: status_of_text_def split: if_splits)

lemma apply_update_invariant:
  assumes "updateRideSchema b = None" and "status b \<noteq> Some ''pending''" and "ride_invariant r"
  shows "ride_invariant (apply_update b now r)"
proof (cases "status b")
  case None
  with assms(3) show ?thesis
    by (simp add: apply_update_def ride_invariant_def Let_def split: option.splits)
next
  case (Some s)
  with assms(1) obtain st where st: "status_of_text s = Some st"
    by (auto simp: updateRideSchema_def split: if_splits)
  with assms(2) Some have "st \<noteq> Pending" using status_of_text_pending by auto
  with Some st show ?thesis
    by (simp add: apply_update_def ride_invariant_def Let_def split: option.splits)
qed

lemma updateRide_invariant:
  assumes "store_invariant db" and "status b \<noteq> Some ''pending''"
  shows "store_invariant (fst (updateRide db now u rideId b))"
proof (cases "updateRideSchema b")
  case (Some k)
  with assms(1) show ?thesis by (simp add: updateRide_def split: option.splits)
next
  case None
  have "store_invariant (fst (update_rides_where_id (apply_update b now) rideId db))"
    by (rule update_rides_where_id_invariant [OF assms(1)])
       (rule apply_update_invariant [OF None assms(2)])
  with None assms(1) show ?thesis
    by (auto simp: updateRide_def case_prod_beta split: option.splits list.splits)
qed

lemma db1_invariant: "store_invariant db1"
  by (simp add: store_invariant_def ride_invariant_def example_defs)

text \<open>
  Claim C6 says that every operation preserves the invariant. The status update accepts
  \<^verbatim>\<open>'pending'\<close> for any ride the caller may update: an admin sets ride 1, which has driver
  7 and vehicle 3, back to pending.
\<close>

theorem status_update_breaks_invariant:
  "store_invariant db1 \<and>
   updateRideSchema body_back_to_pending = None \<and>
   map (\<lambda>r. (r_id r, r_driver_id r, r_status r))
     (rides (fst (updateRide db1 300 admin1 1 body_back_to_pending))) =
     [(1, Some 7, Pending), (2, None, Pending)] \<and>
   \<not> store_invariant (fst (updateRide db1 300 admin1 1 body_back_to_pending))"
  by (simp add: db1_invariant)
     (simp add: updateRide_def requireRole_def updateRideSchema_def status_of_text_def
      update_permission_def where_all_def update_rides_where_id_def apply_update_def
      store_invariant_def ride_invariant_def Let_def admin1_def body_back_to_pending_def
      example_defs)

text \<open>
  Claim C6 as amended: creation, assignment, payment confirmation and the webhook preserve
  the invariant, and so does the status update whenever the request does not set the status
  to \<^verbatim>\<open>'pending'\<close>.
\<close>

theorem invariant_preserved_except_status_update:
  assumes "store_invariant db"
  shows "store_invariant (fst (createRide db now u b)) \<and>
         store_invariant (fst (assignDriver db now rideId driverId)) \<and>
         store_invariant (fst (confirmPayment db now u paymentIntentId retrieved)) \<and>
         store_invariant (fst (webhook db now constructed)) \<and>
         (status ub \<noteq> Some ''pending'' \<longrightarrow> store_invariant (fst (updateRide db now u rideId ub)))"
  using assms createRide_invariant assignDriver_invariant confirmPayment_invariant
    updateRide_invariant store_invariant_rides [OF webhook_rides]
  by simp

theorem invariant_preserved_except_status_update_witness:
  "store_invariant db1 \<and> status body_in_progress \<noteq> Some ''pending'' \<and>
   store_invariant (fst (assignDriver db1 300 2 (Some 7))) \<and>
   map r_status (rides (fst (assignDriver db1 300 2 (Some 7)))) = [Accepted, Accepted] \<and>
   store_invariant (fst (updateRide db1 300 admin1 1 body_in_progress)) \<and>
   map r_status (rides (fst (updateRide db1 300 admin1 1 body_in_progress))) = [InProgress, Pending]"
proof -
  have s: "status body_in_progress \<noteq> Some ''pending''" by (simp add: body_in_progress_def)
  have a: "map r_status (rides (fst (assignDriver db1 300 2 (Some 7)))) = [Accepted, Accepted]"
    by (simp add: assignDriver_def truthy_id_def select_pending_ride_def
        select_available_driver_def left_join_vehicles_def update_rides_where_id_def
        assign_row_def example_defs)
  have b: "map r_status (rides (fst (updateRide db1 300 admin1 1 body_in_progress))) =
             [InProgress, Pending]"
    by (simp add: updateRide_def requireRole_def updateRideSchema_def status_of_text_def
      update_permission_def where_all_def update_rides_where_id_def apply_update_def
      Let_def admin1_def body_in_progress_def example_defs)
  from invariant_preserved_except_status_update [OF db1_invariant,
      where rideId = 2 and driverId = "Some 7" and now = 300 and ub = body_in_progress]
    invariant_preserved_except_status_update [OF db1_invariant,
      where rideId = 1 and u = admin1 and now = 300 and ub = body_in_progress]
    s a b db1_invariant
  show ?thesis by simp
qed

end
